theory Spec2Isabelle
  imports Main "HOL-Library.AList"
begin

section \<open>Values exchanged with the observer\<close>

text \<open>
  The plugin \<^verbatim>\<open>ProxyDashboard\<close> of \<^verbatim>\<open>dashboard.py\<close> talks JSON over a websocket.
  A decoded message is a JSON value; a Python \<^verbatim>\<open>dict\<close> is an association list in
  insertion order, so that \<^verbatim>\<open>d[k] = v\<close> is \<^const>\<open>AList.update\<close> (an existing key
  keeps its place and gets the new value, a new key goes to the end).
\<close>

datatype json =
    JNull
  | JBool bool
  | JNum int
  | JStr string
  | JArr "json list"
  | JObj "(string \<times> json) list"

text \<open>The exceptions the modelled code can raise.\<close>

datatype pyexn =
    AssertionError
  | UnicodeDecodeError
  | JSONDecodeError
  | KeyError string
  | TypeError

text \<open>
  How a call ends: it returns, an exception escapes it, or it never returns (a
  \<^verbatim>\<open>join\<close> on a worker that is never told to stop). The state reached is kept in
  every case, since Python's attribute writes survive a later exception.
\<close>

datatype outcome = Returns | Raises pyexn | Blocks

text \<open>
  \<^verbatim>\<open>message[k]\<close>: a missing key of a dict raises \<^verbatim>\<open>KeyError\<close>; subscripting any
  other JSON value (list, string, number, boolean, null) with a string raises
  \<^verbatim>\<open>TypeError\<close>.
\<close>

definition subscript :: "json \<Rightarrow> string \<Rightarrow> pyexn + json" where
  "subscript message k =
     (case message of
        JObj kvs \<Rightarrow> (case map_of kvs k of None \<Rightarrow> Inl (KeyError k) | Some v \<Rightarrow> Inr v)
      | _ \<Rightarrow> Inl TypeError)"

text \<open>
  An incoming \<^verbatim>\<open>WebsocketFrame\<close>: \<^verbatim>\<open>frame.data\<close> is \<^verbatim>\<open>Optional[bytes]\<close>.
\<close>

record frame =
  data :: "string option"
  opcode :: nat

text \<open>
  An outgoing frame \<^verbatim>\<open>WebsocketFrame.text(bytes_(json.dumps(d)))\<close> is represented by
  the value \<open>d\<close> it serializes; the wire framing and the text encoding are outside
  the model.
\<close>

datatype wire = WebsocketFrame_text json

section \<open>The session and its surroundings\<close>

text \<open>
  A \<^verbatim>\<open>threading.Thread\<close> handle, with the arguments it was created with
  (\<^verbatim>\<open>args=(self.relay_shutdown, self.relay_channel, self.client)\<close>; there is one
  client per session). Events, queues and threads are Python objects; the model
  names each by a number drawn from a counter when the object is created.
\<close>

record thread =
  ident :: nat
  target_shutdown :: nat
  target_channel :: nat

text \<open>The attributes \<^verbatim>\<open>__init__\<close> gives a \<^verbatim>\<open>ProxyDashboard\<close> (lines 37-43).\<close>

record session =
  inspection_enabled :: bool
  relay_thread :: "thread option"
  relay_shutdown :: "nat option"
  relay_channel :: "nat option"
  relay_sub_id :: "string option"

definition init :: session where
  "init = \<lparr>inspection_enabled = False, relay_thread = None, relay_shutdown = None,
            relay_channel = None, relay_sub_id = None\<rparr>"

text \<open>
  Every statement with an effect leaves an entry in a trace, in program order:
  attribute writes, object creation, and the calls on the event bus, the stop
  signal, the worker thread and the client connection.
\<close>

datatype attr =
    Inspection_enabled
  | Relay_thread
  | Relay_shutdown
  | Relay_channel
  | Relay_sub_id

datatype action =
    Assign attr
  | Event_new nat
  | Queue_new nat
  | Thread_start thread
  | Uuid4 string
  | Subscribe string nat
  | Unsubscribe string
  | Event_set nat
  | Thread_join thread
  | Client_queue wire

datatype log_record =
    Error_data "string option"
  | Info_data "string option"
  | Info_opcode nat
  | Info_text string

text \<open>
  What the plugin reaches through \<^verbatim>\<open>self.flags\<close>, \<^verbatim>\<open>self.client\<close>,
  \<^verbatim>\<open>self.event_queue\<close>, \<^verbatim>\<open>logger\<close> and the threading library:
  the capability flag, the client's outbound buffer, the bus registry
  (subscription id to channel), the stop signals that are set, the worker threads
  that were started and have not been joined, the object counter, the log and the
  trace.
\<close>

record world =
  flags_enable_events :: bool
  client :: "wire list"
  subscribers :: "(string \<times> nat) list"
  events_set :: "nat list"
  alive :: "nat list"
  next_obj :: nat
  logged :: "log_record list"
  trace :: "action list"

definition traced :: "action \<Rightarrow> world \<Rightarrow> world" where
  "traced a w = w\<lparr>trace := trace w @ [a]\<rparr>"

definition logger :: "log_record \<Rightarrow> world \<Rightarrow> world" where
  "logger r w = w\<lparr>logged := logged w @ [r]\<rparr>"

text \<open>
  Modelled from the spec: \<^verbatim>\<open>TcpClientConnection.queue\<close>, the Outbound Sink, which
  "accepts serialized outbound messages for delivery": the message is appended to
  the client's buffer.
\<close>

definition client_queue :: "wire \<Rightarrow> world \<Rightarrow> world" where
  "client_queue x w = traced (Client_queue x) (w\<lparr>client := client w @ [x]\<rparr>)"

text \<open>
  Modelled from the spec: the Event Bus, \<^verbatim>\<open>self.event_queue\<close>.
  "\<^verbatim>\<open>subscribe(id, channel)\<close> registers \<^verbatim>\<open>channel\<close> to receive a copy of every
  future published Event until unsubscribed; \<^verbatim>\<open>unsubscribe(id)\<close> deregisters
  immediately."
\<close>

definition subscribe :: "string \<Rightarrow> nat \<Rightarrow> world \<Rightarrow> world" where
  "subscribe sub_id channel w =
     traced (Subscribe sub_id channel)
       (w\<lparr>subscribers := AList.update sub_id channel (subscribers w)\<rparr>)"

definition unsubscribe :: "string \<Rightarrow> world \<Rightarrow> world" where
  "unsubscribe sub_id w =
     traced (Unsubscribe sub_id) (w\<lparr>subscribers := AList.delete sub_id (subscribers w)\<rparr>)"

text \<open>\<^verbatim>\<open>threading.Event()\<close> and \<^verbatim>\<open>RELAY_MANAGER.Queue()\<close>: a new object each.\<close>

definition event_new :: "world \<Rightarrow> nat \<times> world" where
  "event_new w = (next_obj w, traced (Event_new (next_obj w)) (w\<lparr>next_obj := Suc (next_obj w)\<rparr>))"

definition manager_queue :: "world \<Rightarrow> nat \<times> world" where
  "manager_queue w = (next_obj w, traced (Queue_new (next_obj w)) (w\<lparr>next_obj := Suc (next_obj w)\<rparr>))"

text \<open>\<^verbatim>\<open>threading.Thread(target=self.relay_events, args=(shutdown, channel, client))\<close>.\<close>

definition thread_new :: "nat \<Rightarrow> nat \<Rightarrow> world \<Rightarrow> thread \<times> world" where
  "thread_new shutdown channel w =
     (\<lparr>ident = next_obj w, target_shutdown = shutdown, target_channel = channel\<rparr>,
      w\<lparr>next_obj := Suc (next_obj w)\<rparr>)"

definition thread_start :: "thread \<Rightarrow> world \<Rightarrow> world" where
  "thread_start t w = traced (Thread_start t) (w\<lparr>alive := alive w @ [ident t]\<rparr>)"

definition event_set :: "nat \<Rightarrow> world \<Rightarrow> world" where
  "event_set e w = traced (Event_set e) (w\<lparr>events_set := events_set w @ [e]\<rparr>)"

text \<open>
  \<^verbatim>\<open>Thread.join()\<close> returns once the worker has left \<^verbatim>\<open>relay_events\<close>. The worker
  is known to leave when its stop signal is set (see \<open>relay_events\<close> below); on a
  worker that is still running and whose signal is not set the call may wait for
  ever, which the model takes as the result \<open>None\<close>.
\<close>

definition thread_join :: "thread \<Rightarrow> world \<Rightarrow> world option" where
  "thread_join t w =
     (if ident t \<in> set (alive w) \<and> target_shutdown t \<notin> set (events_set w) then None
      else Some (traced (Thread_join t) (w\<lparr>alive := removeAll (ident t) (alive w)\<rparr>)))"

section \<open>The plugin's methods\<close>

text \<open>\<^verbatim>\<open>reply\<close> (lines 149-153).\<close>

definition reply :: "json \<Rightarrow> world \<Rightarrow> world" where
  "reply d w = client_queue (WebsocketFrame_text d) w"

text \<open>\<^verbatim>\<open>shutdown_relay\<close> (lines 132-147). An empty string is falsy for \<^verbatim>\<open>assert\<close>.\<close>

definition shutdown_relay :: "world \<Rightarrow> session \<Rightarrow> outcome \<times> world \<times> session" where
  "shutdown_relay w s =
     (if \<not> inspection_enabled s then (Returns, w, s)
      else case relay_shutdown s of
        None \<Rightarrow> (Raises AssertionError, w, s)
      | Some e \<Rightarrow>
     (case relay_thread s of
        None \<Rightarrow> (Raises AssertionError, w, s)
      | Some t \<Rightarrow>
     (case relay_sub_id s of
        None \<Rightarrow> (Raises AssertionError, w, s)
      | Some sub_id \<Rightarrow>
        if sub_id = [] then (Raises AssertionError, w, s)
        else
          let w = unsubscribe sub_id w;
              w = event_set e w
          in case thread_join t w of
               None \<Rightarrow> (Blocks, w, s)
             | Some w \<Rightarrow>
               let s = s\<lparr>relay_thread := None\<rparr>; w = traced (Assign Relay_thread) w;
                   s = s\<lparr>relay_shutdown := None\<rparr>; w = traced (Assign Relay_shutdown) w;
                   s = s\<lparr>relay_channel := None\<rparr>; w = traced (Assign Relay_channel) w;
                   s = s\<lparr>relay_sub_id := None\<rparr>; w = traced (Assign Relay_sub_id) w
               in (Returns, w, s))))"

text \<open>\<^verbatim>\<open>on_websocket_close\<close> (lines 128-130).\<close>

definition on_websocket_close :: "world \<Rightarrow> session \<Rightarrow> outcome \<times> world \<times> session" where
  "on_websocket_close w s = shutdown_relay (logger (Info_text ''app ws closed'') w) s"

text \<open>
  \<^verbatim>\<open>on_websocket_message\<close> (lines 80-126). Two library calls are inputs of the
  model: \<open>loaded\<close> is what \<^verbatim>\<open>json.loads(frame.data)\<close> yields (a value, or the
  exception it raises), and \<open>uuid4_hex\<close> is what \<^verbatim>\<open>uuid.uuid4().hex\<close> yields if
  this call reaches it. Only \<^verbatim>\<open>UnicodeDecodeError\<close> is caught. The key \<^verbatim>\<open>'id'\<close> is
  read when the reply is built, after the branch's other statements.
\<close>

definition on_websocket_message ::
  "pyexn + json \<Rightarrow> string \<Rightarrow> frame \<Rightarrow> world \<Rightarrow> session \<Rightarrow> outcome \<times> world \<times> session" where
  "on_websocket_message loaded uuid4_hex fr w s =
     (if data fr = None \<or> data fr = Some [] then (Raises AssertionError, w, s)
      else case loaded of
        Inl x \<Rightarrow>
          if x = UnicodeDecodeError
          then (Returns, logger (Info_opcode (opcode fr)) (logger (Error_data (data fr)) w), s)
          else (Raises x, w, s)
      | Inr message \<Rightarrow>
     (case subscript message ''method'' of
        Inl x \<Rightarrow> (Raises x, w, s)
      | Inr method \<Rightarrow>
        if method = JStr ''ping'' then
          (case subscript message ''id'' of
             Inl x \<Rightarrow> (Raises x, w, s)
           | Inr i \<Rightarrow> (Returns, reply (JObj [(''id'', i), (''response'', JStr ''pong'')]) w, s))
        else if method = JStr ''enable_inspection'' then
          if \<not> flags_enable_events w then
            (case subscript message ''id'' of
               Inl x \<Rightarrow> (Raises x, w, s)
             | Inr i \<Rightarrow>
                 (Returns,
                  client_queue
                    (WebsocketFrame_text (JObj [(''id'', i), (''response'', JStr ''not enabled'')])) w,
                  s))
          else
            let s = s\<lparr>inspection_enabled := True\<rparr>; w = traced (Assign Inspection_enabled) w;
                (e, w) = event_new w;
                s = s\<lparr>relay_shutdown := Some e\<rparr>; w = traced (Assign Relay_shutdown) w;
                (c, w) = manager_queue w;
                s = s\<lparr>relay_channel := Some c\<rparr>; w = traced (Assign Relay_channel) w;
                (t, w) = thread_new e c w;
                s = s\<lparr>relay_thread := Some t\<rparr>; w = traced (Assign Relay_thread) w;
                w = thread_start t w;
                w = traced (Uuid4 uuid4_hex) w;
                s = s\<lparr>relay_sub_id := Some uuid4_hex\<rparr>; w = traced (Assign Relay_sub_id) w;
                w = subscribe uuid4_hex c w
            in (case subscript message ''id'' of
                  Inl x \<Rightarrow> (Raises x, w, s)
                | Inr i \<Rightarrow>
                    (Returns,
                     reply (JObj [(''id'', i), (''response'', JStr ''inspection_enabled'')]) w, s))
        else if method = JStr ''disable_inspection'' then
          (case shutdown_relay w s of
             (Returns, w, s) \<Rightarrow>
               let s = s\<lparr>inspection_enabled := False\<rparr>; w = traced (Assign Inspection_enabled) w
               in (case subscript message ''id'' of
                     Inl x \<Rightarrow> (Raises x, w, s)
                   | Inr i \<Rightarrow>
                       (Returns,
                        reply (JObj [(''id'', i), (''response'', JStr ''inspection_disabled'')]) w,
                        s))
           | (Raises x, w, s) \<Rightarrow> (Raises x, w, s)
           | (Blocks, w, s) \<Rightarrow> (Blocks, w, s))
        else
          let w = logger (Info_data (data fr)) w;
              w = logger (Info_opcode (opcode fr)) w
          in (case subscript message ''id'' of
                Inl x \<Rightarrow> (Raises x, w, s)
              | Inr i \<Rightarrow>
                  (Returns,
                   reply (JObj [(''id'', i), (''response'', JStr ''not_implemented'')]) w, s))))"

section \<open>The relay worker\<close>

text \<open>
  \<^verbatim>\<open>relay_events\<close> (lines 155-173) runs on the worker thread. What the worker
  sees at one pass through its loop is an input of the model: whether
  \<^verbatim>\<open>shutdown.is_set()\<close> holds at the loop head, and how \<^verbatim>\<open>channel.get(timeout=1)\<close>
  ends (an event, \<^verbatim>\<open>queue.Empty\<close> after the timeout, \<^verbatim>\<open>EOFError\<close>, or a
  \<^verbatim>\<open>KeyboardInterrupt\<close> delivered during the pass).
\<close>

datatype got = Item "(string \<times> json) list" | Empty | EOFError | KeyboardInterrupt

record tick =
  is_set :: bool
  get :: got

text \<open>
  Lines 163-167: \<^verbatim>\<open>ev['push'] = 'inspect_traffic'\<close>, then the frame queued on the
  client.
\<close>

definition push_message :: "(string \<times> json) list \<Rightarrow> wire" where
  "push_message ev =
     WebsocketFrame_text (JObj (AList.update ''push'' (JStr ''inspect_traffic'') ev))"

text \<open>
  One pass: the loop test and the \<^verbatim>\<open>try\<close> statement. The pass either goes round
  again or leaves the loop, with the client's buffer as it is then.
\<close>

datatype pass = Continue "wire list" | Exit "wire list"

definition relay_pass :: "tick \<Rightarrow> wire list \<Rightarrow> pass" where
  "relay_pass t buf =
     (if is_set t then Exit buf
      else case get t of
        Item ev \<Rightarrow> Continue (buf @ [push_message ev])
      | Empty \<Rightarrow> Continue buf
      | EOFError \<Rightarrow> Exit buf
      | KeyboardInterrupt \<Rightarrow> Exit buf)"

text \<open>
  The loop, from pass \<open>n\<close> of the schedule \<open>sched\<close> on. The result is the client's
  buffer when \<^verbatim>\<open>relay_events\<close> returns; \<open>None\<close> is a loop that never ends.
\<close>

partial_function (option) relay_events :: "(nat \<Rightarrow> tick) \<Rightarrow> nat \<Rightarrow> wire list \<Rightarrow> wire list option" where
  "relay_events sched n buf =
     (case relay_pass (sched n) buf of
        Exit b \<Rightarrow> Some b
      | Continue b \<Rightarrow> relay_events sched (Suc n) b)"

section \<open>Protocol states\<close>

text \<open>
  \<open>Idle\<close>: the flag is off and no handle is held. \<open>Inspecting\<close>: the flag is on, the
  handles are those one \<^verbatim>\<open>enable_inspection\<close> stored together (the worker was
  created with this stop signal and this channel), and the subscription id is a
  non-empty string.
\<close>

definition Idle :: "session \<Rightarrow> bool" where
  "Idle s = (\<not> inspection_enabled s \<and> relay_thread s = None \<and> relay_shutdown s = None \<and>
             relay_channel s = None \<and> relay_sub_id s = None)"

definition Inspecting :: "session \<Rightarrow> bool" where
  "Inspecting s =
     (inspection_enabled s \<and>
      (case relay_thread s of
         None \<Rightarrow> False
       | Some t \<Rightarrow> relay_shutdown s = Some (target_shutdown t) \<and>
                   relay_channel s = Some (target_channel t)) \<and>
      (case relay_sub_id s of None \<Rightarrow> False | Some sub_id \<Rightarrow> sub_id \<noteq> []))"

text \<open>The invariant of the spec's data model: the flag is on iff the handles are present.\<close>

definition all_or_nothing :: "session \<Rightarrow> bool" where
  "all_or_nothing s =
     (inspection_enabled s =
        (relay_sub_id s \<noteq> None \<and> relay_channel s \<noteq> None \<and> relay_thread s \<noteq> None))"

section \<open>Order of effects\<close>

text \<open>\<open>before a b xs\<close>: \<open>a\<close> occurs in \<open>xs\<close>, and \<open>b\<close> occurs after its first occurrence.\<close>

definition before :: "action \<Rightarrow> action \<Rightarrow> action list \<Rightarrow> bool" where
  "before a b xs = (a \<noteq> b \<and> b \<in> set (dropWhile (\<lambda>x. x \<noteq> a) xs))"

section \<open>Sample inputs\<close>

text \<open>
  The control message \<^verbatim>\<open>{"id": 1, "method": "<m>"}\<close>: its text, the value
  \<^verbatim>\<open>json.loads\<close> decodes it to, and the text frame that carries it.
\<close>

definition quoted :: "string \<Rightarrow> string" where
  "quoted s = CHR 0x22 # s @ [CHR 0x22]"

definition control_text :: "string \<Rightarrow> string" where
  "control_text m =
     ''{'' @ quoted ''id'' @ '': 1, '' @ quoted ''method'' @ '': '' @ quoted m @ ''}''"

definition control_message :: "string \<Rightarrow> json" where
  "control_message m = JObj [(''id'', JNum 1), (''method'', JStr m)]"

definition control_frame :: "string \<Rightarrow> frame" where
  "control_frame m = \<lparr>data = Some (control_text m), opcode = 1\<rparr>"

text \<open>The same without the id: \<^verbatim>\<open>{"method": "<m>"}\<close>.\<close>

definition bare_text :: "string \<Rightarrow> string" where
  "bare_text m = ''{'' @ quoted ''method'' @ '': '' @ quoted m @ ''}''"

definition bare_message :: "string \<Rightarrow> json" where
  "bare_message m = JObj [(''method'', JStr m)]"

definition bare_frame :: "string \<Rightarrow> frame" where
  "bare_frame m = \<lparr>data = Some (bare_text m), opcode = 1\<rparr>"

text \<open>The surroundings of a session whose websocket has just been opened (line 78).\<close>

definition opened :: "bool \<Rightarrow> world" where
  "opened capability =
     \<lparr>flags_enable_events = capability, client = [], subscribers = [], events_set = [],
      alive = [], next_obj = 0, logged = [Info_text ''app ws opened''], trace = []\<rparr>"

definition uuid_a :: string where
  "uuid_a = ''0123456789abcdef0123456789abcdef''"

definition uuid_b :: string where
  "uuid_b = ''fedcba9876543210fedcba9876543210''"

text \<open>
  The state \<^verbatim>\<open>enable_inspection\<close> leaves when it is the first message of a session
  with the capability (lemma \<open>enabled_sample\<close> below).
\<close>

definition worker_a :: thread where
  "worker_a = \<lparr>ident = 2, target_shutdown = 0, target_channel = 1\<rparr>"

definition enabled_reply :: wire where
  "enabled_reply =
     WebsocketFrame_text (JObj [(''id'', JNum 1), (''response'', JStr ''inspection_enabled'')])"

definition inspecting_world :: world where
  "inspecting_world =
     \<lparr>flags_enable_events = True, client = [enabled_reply],
      subscribers = [(uuid_a, 1)], events_set = [], alive = [2], next_obj = 3,
      logged = [Info_text ''app ws opened''],
      trace =
        [Assign Inspection_enabled, Event_new 0, Assign Relay_shutdown, Queue_new 1,
         Assign Relay_channel, Assign Relay_thread, Thread_start worker_a, Uuid4 uuid_a,
         Assign Relay_sub_id, Subscribe uuid_a 1, Client_queue enabled_reply]\<rparr>"

definition inspecting_session :: session where
  "inspecting_session =
     \<lparr>inspection_enabled = True, relay_thread = Some worker_a, relay_shutdown = Some 0,
      relay_channel = Some 1, relay_sub_id = Some uuid_a\<rparr>"

text \<open>
  A schedule for the worker: it gets the event \<open>ev\<close> at its first pass and finds the
  stop signal set at the second.
\<close>

definition one_event :: "(string \<times> json) list \<Rightarrow> nat \<Rightarrow> tick" where
  "one_event ev n =
     (if n = 0 then \<lparr>is_set = False, get = Item ev\<rparr> else \<lparr>is_set = True, get = Empty\<rparr>)"

text \<open>A schedule on which the worker never leaves: no event, no stop signal.\<close>

definition idle_for_ever :: "nat \<Rightarrow> tick" where
  "idle_for_ever n = \<lparr>is_set = False, get = Empty\<rparr>"

section \<open>Unfolding the effects\<close>

lemmas effects =
  traced_def logger_def client_queue_def subscribe_def unsubscribe_def event_new_def
  manager_queue_def thread_new_def thread_start_def event_set_def thread_join_def reply_def

lemmas samples =
  quoted_def control_text_def control_message_def control_frame_def bare_text_def
  bare_message_def bare_frame_def opened_def uuid_a_def uuid_b_def worker_a_def
  enabled_reply_def inspecting_world_def inspecting_session_def init_def

lemma enable_capable:
  assumes "data fr = Some d" "d \<noteq> []"
    and "loaded = Inr message"
    and "subscript message ''method'' = Inr (JStr ''enable_inspection'')"
    and "subscript message ''id'' = Inr i"
    and "flags_enable_events w"
  shows "on_websocket_message loaded u fr w s =
    (Returns,
     w\<lparr>client := client w @
          [WebsocketFrame_text (JObj [(''id'', i), (''response'', JStr ''inspection_enabled'')])],
       subscribers := AList.update u (Suc (next_obj w)) (subscribers w),
       alive := alive w @ [Suc (Suc (next_obj w))],
       next_obj := Suc (Suc (Suc (next_obj w))),
       trace := trace w @
         [Assign Inspection_enabled,
          Event_new (next_obj w), Assign Relay_shutdown,
          Queue_new (Suc (next_obj w)), Assign Relay_channel,
          Assign Relay_thread,
          Thread_start \<lparr>ident = Suc (Suc (next_obj w)), target_shutdown = next_obj w,
                        target_channel = Suc (next_obj w)\<rparr>,
          Uuid4 u, Assign Relay_sub_id,
          Subscribe u (Suc (next_obj w)),
          Client_queue
            (WebsocketFrame_text (JObj [(''id'', i), (''response'', JStr ''inspection_enabled'')]))]\<rparr>,
     \<lparr>inspection_enabled = True,
      relay_thread = Some \<lparr>ident = Suc (Suc (next_obj w)), target_shutdown = next_obj w,
                            target_channel = Suc (next_obj w)\<rparr>,
      relay_shutdown = Some (next_obj w),
      relay_channel = Some (Suc (next_obj w)),
      relay_sub_id = Some u\<rparr>)"
  using assms by (simp add: on_websocket_message_def effects Let_def)

lemma shutdown_relay_inspecting:
  assumes "Inspecting s"
  shows "\<exists>t e c sub_id.
    relay_thread s = Some t \<and> relay_shutdown s = Some e \<and> relay_channel s = Some c \<and>
    relay_sub_id s = Some sub_id \<and> target_shutdown t = e \<and>
    shutdown_relay w s =
      (Returns,
       w\<lparr>subscribers := AList.delete sub_id (subscribers w),
         events_set := events_set w @ [e],
         alive := removeAll (ident t) (alive w),
         trace := trace w @
           [Unsubscribe sub_id, Event_set e, Thread_join t,
            Assign Relay_thread, Assign Relay_shutdown, Assign Relay_channel, Assign Relay_sub_id]\<rparr>,
       s\<lparr>relay_thread := None, relay_shutdown := None, relay_channel := None,
         relay_sub_id := None\<rparr>)"
  using assms
  by (auto simp add: Inspecting_def shutdown_relay_def effects Let_def split: option.splits)

lemma shutdown_relay_idle:
  "\<not> inspection_enabled s \<Longrightarrow> shutdown_relay w s = (Returns, w, s)"
  by (simp add: shutdown_relay_def)

lemma shutdown_relay_flag:
  "inspection_enabled (snd (snd (shutdown_relay w s))) = inspection_enabled s"
  by (simp add: shutdown_relay_def Let_def split: option.splits)

lemma shutdown_relay_trace:
  "\<exists>ys. trace (fst (snd (shutdown_relay w s))) = trace w @ ys \<and>
        Assign Inspection_enabled \<notin> set ys"
  by (simp add: shutdown_relay_def effects Let_def split: option.splits)

lemma enabled_sample:
  "on_websocket_message (Inr (control_message ''enable_inspection'')) uuid_a
     (control_frame ''enable_inspection'') (opened True) init =
   (Returns, inspecting_world, inspecting_session)"
  by (simp add: on_websocket_message_def effects samples subscript_def Let_def)

lemma inspecting_sample: "Inspecting inspecting_session"
  by (simp add: Inspecting_def samples)

section \<open>The message handler, branch by branch\<close>

lemma message_empty:
  "data fr = None \<or> data fr = Some [] \<Longrightarrow>
   on_websocket_message loaded u fr w s = (Raises AssertionError, w, s)"
  by (simp add: on_websocket_message_def)

lemma message_undecoded:
  assumes "data fr = Some d" "d \<noteq> []" and "loaded = Inl x"
  shows "on_websocket_message loaded u fr w s =
    (if x = UnicodeDecodeError
     then (Returns, w\<lparr>logged := logged w @ [Error_data (data fr), Info_opcode (opcode fr)]\<rparr>, s)
     else (Raises x, w, s))"
  using assms by (simp add: on_websocket_message_def logger_def)

lemma message_no_method:
  assumes "data fr = Some d" "d \<noteq> []" and "loaded = Inr message"
    and "subscript message ''method'' = Inl x"
  shows "on_websocket_message loaded u fr w s = (Raises x, w, s)"
  using assms by (simp add: on_websocket_message_def)

lemma message_ping:
  assumes "data fr = Some d" "d \<noteq> []" and "loaded = Inr message"
    and "subscript message ''method'' = Inr (JStr ''ping'')"
  shows "on_websocket_message loaded u fr w s =
    (case subscript message ''id'' of
       Inl x \<Rightarrow> (Raises x, w, s)
     | Inr i \<Rightarrow> (Returns, reply (JObj [(''id'', i), (''response'', JStr ''pong'')]) w, s))"
  using assms by (simp add: on_websocket_message_def)

lemma message_enable_denied:
  assumes "data fr = Some d" "d \<noteq> []" and "loaded = Inr message"
    and "subscript message ''method'' = Inr (JStr ''enable_inspection'')"
    and "\<not> flags_enable_events w"
  shows "on_websocket_message loaded u fr w s =
    (case subscript message ''id'' of
       Inl x \<Rightarrow> (Raises x, w, s)
     | Inr i \<Rightarrow> (Returns, reply (JObj [(''id'', i), (''response'', JStr ''not enabled'')]) w, s))"
  using assms by (simp add: on_websocket_message_def reply_def split: sum.splits)

lemma message_enable_no_id:
  assumes "data fr = Some d" "d \<noteq> []" and "loaded = Inr message"
    and "subscript message ''method'' = Inr (JStr ''enable_inspection'')"
    and "subscript message ''id'' = Inl x"
    and "flags_enable_events w"
  shows "on_websocket_message loaded u fr w s =
    (Raises x,
     w\<lparr>subscribers := AList.update u (Suc (next_obj w)) (subscribers w),
       alive := alive w @ [Suc (Suc (next_obj w))],
       next_obj := Suc (Suc (Suc (next_obj w))),
       trace := trace w @
         [Assign Inspection_enabled,
          Event_new (next_obj w), Assign Relay_shutdown,
          Queue_new (Suc (next_obj w)), Assign Relay_channel,
          Assign Relay_thread,
          Thread_start \<lparr>ident = Suc (Suc (next_obj w)), target_shutdown = next_obj w,
                        target_channel = Suc (next_obj w)\<rparr>,
          Uuid4 u, Assign Relay_sub_id,
          Subscribe u (Suc (next_obj w))]\<rparr>,
     \<lparr>inspection_enabled = True,
      relay_thread = Some \<lparr>ident = Suc (Suc (next_obj w)), target_shutdown = next_obj w,
                            target_channel = Suc (next_obj w)\<rparr>,
      relay_shutdown = Some (next_obj w),
      relay_channel = Some (Suc (next_obj w)),
      relay_sub_id = Some u\<rparr>)"
  using assms
  by (simp add: on_websocket_message_def effects Let_def)

lemma message_disable:
  assumes "data fr = Some d" "d \<noteq> []" and "loaded = Inr message"
    and "subscript message ''method'' = Inr (JStr ''disable_inspection'')"
  shows "on_websocket_message loaded u fr w s =
    (case shutdown_relay w s of
       (Returns, w', s') \<Rightarrow>
         (case subscript message ''id'' of
            Inl x \<Rightarrow> (Raises x, traced (Assign Inspection_enabled) w', s'\<lparr>inspection_enabled := False\<rparr>)
          | Inr i \<Rightarrow>
              (Returns,
               reply (JObj [(''id'', i), (''response'', JStr ''inspection_disabled'')])
                 (traced (Assign Inspection_enabled) w'),
               s'\<lparr>inspection_enabled := False\<rparr>))
     | (Raises x, w', s') \<Rightarrow> (Raises x, w', s')
     | (Blocks, w', s') \<Rightarrow> (Blocks, w', s'))"
  using assms
  by (simp add: on_websocket_message_def Let_def split: prod.splits outcome.splits sum.splits)

lemma message_other:
  assumes "data fr = Some d" "d \<noteq> []" and "loaded = Inr message"
    and "subscript message ''method'' = Inr m"
    and "m \<noteq> JStr ''ping''" "m \<noteq> JStr ''enable_inspection''" "m \<noteq> JStr ''disable_inspection''"
  shows "on_websocket_message loaded u fr w s =
    (case subscript message ''id'' of
       Inl x \<Rightarrow> (Raises x, w\<lparr>logged := logged w @ [Info_data (data fr), Info_opcode (opcode fr)]\<rparr>, s)
     | Inr i \<Rightarrow>
         (Returns,
          reply (JObj [(''id'', i), (''response'', JStr ''not_implemented'')])
            (w\<lparr>logged := logged w @ [Info_data (data fr), Info_opcode (opcode fr)]\<rparr>), s))"
  using assms by (simp add: on_websocket_message_def Let_def logger_def split: sum.splits)


lemma flag_survives_other_messages:
  assumes "inspection_enabled s"
    and "\<not> inspection_enabled (snd (snd (on_websocket_message loaded u fr w s)))"
  shows "\<exists>message. loaded = Inr message \<and>
           subscript message ''method'' = Inr (JStr ''disable_inspection'')"
proof (cases "data fr = None \<or> data fr = Some []")
  case True
  with assms show ?thesis by (simp add: message_empty)
next
  case False
  then obtain d where d: "data fr = Some d" "d \<noteq> []" by auto
  show ?thesis
  proof (cases loaded)
    case (Inl x)
    with assms d show ?thesis by (simp add: message_undecoded split: if_splits)
  next
    case (Inr message)
    note msg = d Inr
    show ?thesis
    proof (cases "subscript message ''method''")
      case (Inl x)
      with assms msg show ?thesis by (simp add: message_no_method)
    next
      case (Inr m)
      consider "m = JStr ''ping''" | "m = JStr ''enable_inspection''"
        | "m = JStr ''disable_inspection''"
        | "m \<noteq> JStr ''ping''" "m \<noteq> JStr ''enable_inspection''" "m \<noteq> JStr ''disable_inspection''"
        by blast
      then show ?thesis
      proof cases
        case 1
        with assms msg Inr show ?thesis by (simp add: message_ping split: sum.splits)
      next
        case 2
        show ?thesis
        proof (cases "flags_enable_events w")
          case True
          with assms msg Inr 2 show ?thesis
            by (cases "subscript message ''id''") (simp_all add: message_enable_no_id enable_capable)
        next
          case False
          with assms msg Inr 2 show ?thesis by (simp add: message_enable_denied split: sum.splits)
        qed
      next
        case 3
        with msg Inr show ?thesis by simp
      next
        case 4
        with assms msg Inr show ?thesis by (simp add: message_other split: sum.splits)
      qed
    qed
  qed
qed

section \<open>The worker's loop\<close>

lemma relay_pass_leaves:
  "(\<exists>b. relay_pass t buf = Exit b) = (is_set t \<or> get t = EOFError \<or> get t = KeyboardInterrupt)"
  by (cases "get t") (simp_all add: relay_pass_def)

lemma relay_pass_Exit: "relay_pass t buf = Exit b \<Longrightarrow> b = buf"
  by (cases "get t") (simp_all add: relay_pass_def split: if_splits)

lemma relay_events_returns:
  assumes "is_set (sched (n + k)) \<or> get (sched (n + k)) = EOFError \<or>
           get (sched (n + k)) = KeyboardInterrupt"
  shows "\<exists>b. relay_events sched n buf = Some b"
  using assms
proof (induction k arbitrary: n buf)
  case 0
  then obtain b where "relay_pass (sched n) buf = Exit b"
    using relay_pass_leaves [of "sched n" buf] by auto
  then show ?case by (subst relay_events.simps) simp
next
  case (Suc k)
  show ?case
  proof (cases "relay_pass (sched n) buf")
    case (Exit b)
    then show ?thesis by (subst relay_events.simps) simp
  next
    case (Continue b)
    from Suc.prems have "is_set (sched (Suc n + k)) \<or> get (sched (Suc n + k)) = EOFError \<or>
           get (sched (Suc n + k)) = KeyboardInterrupt" by simp
    from Suc.IH [OF this] obtain b' where "relay_events sched (Suc n) b = Some b'" by blast
    with Continue show ?thesis by (subst relay_events.simps) simp
  qed
qed


lemma relay_events_left:
  assumes "relay_events sched n buf = Some b"
  shows "\<exists>m. n \<le> m \<and>
           (is_set (sched m) \<or> get (sched m) = EOFError \<or> get (sched m) = KeyboardInterrupt)"
proof (rule relay_events.raw_induct
    [where P = "\<lambda>sched n buf b. \<exists>m. n \<le> m \<and>
           (is_set (sched m) \<or> get (sched m) = EOFError \<or> get (sched m) = KeyboardInterrupt)",
     OF _ assms])
  fix f :: "(nat \<Rightarrow> tick) \<Rightarrow> nat \<Rightarrow> wire list \<Rightarrow> wire list option"
  fix sched n buf b
  assume IH: "\<And>sched n buf b. f sched n buf = Some b \<Longrightarrow>
    \<exists>m. n \<le> m \<and>
        (is_set (sched m) \<or> get (sched m) = EOFError \<or> get (sched m) = KeyboardInterrupt)"
    and body: "(case relay_pass (sched n) buf of
                  Continue b \<Rightarrow> f sched (Suc n) b | Exit b \<Rightarrow> Some b) = Some b"
  show "\<exists>m. n \<le> m \<and>
        (is_set (sched m) \<or> get (sched m) = EOFError \<or> get (sched m) = KeyboardInterrupt)"
  proof (cases "relay_pass (sched n) buf")
    case (Exit b')
    then have "is_set (sched n) \<or> get (sched n) = EOFError \<or> get (sched n) = KeyboardInterrupt"
      using relay_pass_leaves [of "sched n" buf] by auto
    then show ?thesis by (rule_tac x = n in exI) simp
  next
    case (Continue b')
    with body have "f sched (Suc n) b' = Some b" by simp
    from IH [OF this] obtain m where m: "Suc n \<le> m"
      "is_set (sched m) \<or> get (sched m) = EOFError \<or> get (sched m) = KeyboardInterrupt"
      by auto
    then show ?thesis by (rule_tac x = m in exI) simp
  qed
qed

lemma relay_events_one_event:
  "relay_events (one_event ev) 0 buf = Some (buf @ [push_message ev])"
proof -
  have "relay_events (one_event ev) (Suc 0) (buf @ [push_message ev]) = Some (buf @ [push_message ev])"
    by (subst relay_events.simps) (simp add: one_event_def relay_pass_def)
  then show ?thesis
    by (subst relay_events.simps) (simp add: one_event_def relay_pass_def)
qed

lemma relay_events_idle_for_ever: "relay_events idle_for_ever n buf = None"
proof (cases "relay_events idle_for_ever n buf")
  case None
  then show ?thesis .
next
  case (Some b)
  from relay_events_left [OF this] show ?thesis by (simp add: idle_for_ever_def)
qed

section \<open>Messages keep the protocol states\<close>

text \<open>
  Whatever the frame, and also when an exception escapes, the handler takes an Idle
  or Inspecting session to an Idle or Inspecting one (the identifier drawn from
  \<^verbatim>\<open>uuid4\<close> is not the empty string); in both states the flag is on iff the
  handles are present.
\<close>

lemma protocol_state_all_or_nothing: "Idle s \<or> Inspecting s \<Longrightarrow> all_or_nothing s"
  by (auto simp add: Idle_def Inspecting_def all_or_nothing_def split: option.splits)

lemma shutdown_relay_protocol_state:
  assumes "Idle s \<or> Inspecting s"
  shows "fst (shutdown_relay w s) = Returns \<and>
         Idle ((snd (snd (shutdown_relay w s)))\<lparr>inspection_enabled := False\<rparr>)"
proof (cases "Idle s")
  case True
  then have "\<not> inspection_enabled s" by (simp add: Idle_def)
  from shutdown_relay_idle [OF this] True show ?thesis by (simp add: Idle_def)
next
  case False
  with assms have "Inspecting s" by simp
  from shutdown_relay_inspecting [OF this, of w] show ?thesis by (auto simp add: Idle_def)
qed

lemma message_keeps_protocol_state:
  assumes "Idle s \<or> Inspecting s" and "u \<noteq> []"
  shows "Idle (snd (snd (on_websocket_message loaded u fr w s))) \<or>
         Inspecting (snd (snd (on_websocket_message loaded u fr w s)))"
proof (cases "data fr = None \<or> data fr = Some []")
  case True
  with assms show ?thesis by (simp add: message_empty)
next
  case False
  then obtain d where d: "data fr = Some d" "d \<noteq> []" by auto
  show ?thesis
  proof (cases loaded)
    case (Inl x)
    with assms d show ?thesis by (simp add: message_undecoded)
  next
    case (Inr message)
    note msg = d Inr
    show ?thesis
    proof (cases "subscript message ''method''")
      case (Inl x)
      with assms msg show ?thesis by (simp add: message_no_method)
    next
      case (Inr m)
      consider "m = JStr ''ping''" | "m = JStr ''enable_inspection''"
        | "m = JStr ''disable_inspection''"
        | "m \<noteq> JStr ''ping''" "m \<noteq> JStr ''enable_inspection''" "m \<noteq> JStr ''disable_inspection''"
        by blast
      then show ?thesis
      proof cases
        case 1
        with assms msg Inr show ?thesis by (simp add: message_ping split: sum.splits)
      next
        case 2
        show ?thesis
        proof (cases "flags_enable_events w")
          case True
          with assms(2) msg Inr 2 show ?thesis
            by (cases "subscript message ''id''")
              (simp_all add: message_enable_no_id enable_capable Inspecting_def)
        next
          case False
          with assms msg Inr 2 show ?thesis by (simp add: message_enable_denied split: sum.splits)
        qed
      next
        case 3
        obtain r w' s' where sr: "shutdown_relay w s = (r, w', s')"
          by (cases "shutdown_relay w s") auto
        with shutdown_relay_protocol_state [OF assms(1), of w]
        have "r = Returns" "Idle (s'\<lparr>inspection_enabled := False\<rparr>)" by simp_all
        with msg Inr 3 sr show ?thesis by (simp add: message_disable split: sum.splits)
      next
        case 4
        with assms msg Inr show ?thesis by (simp add: message_other split: sum.splits)
      qed
    qed
  qed
qed

lemma message_keeps_all_or_nothing:
  assumes "Idle s \<or> Inspecting s" and "u \<noteq> []"
  shows "all_or_nothing (snd (snd (on_websocket_message loaded u fr w s)))"
  using message_keeps_protocol_state [OF assms] by (rule protocol_state_all_or_nothing)

section \<open>The claims\<close>

text \<open>
  C10. \<^verbatim>\<open>shutdown_relay\<close> never modifies \<^verbatim>\<open>inspection_enabled\<close>: after every call the
  flag has the value it had before, and the call writes no such attribute. So
  \<^verbatim>\<open>on_websocket_close\<close> leaves the flag at its prior value too; on an Inspecting
  session it clears the four relay handles (thread, stop signal, channel,
  subscription id) and nothing else. Among the messages, only
  \<^verbatim>\<open>disable_inspection\<close> can turn a set flag off.
\<close>

theorem shutdown_relay_keeps_flag:
  "inspection_enabled (snd (snd (shutdown_relay w s))) = inspection_enabled s \<and>
   (\<exists>ys. trace (fst (snd (shutdown_relay w s))) = trace w @ ys \<and>
         Assign Inspection_enabled \<notin> set ys) \<and>
   inspection_enabled (snd (snd (on_websocket_close w s))) = inspection_enabled s \<and>
   (Inspecting s \<longrightarrow>
      snd (snd (on_websocket_close w s)) =
        s\<lparr>relay_thread := None, relay_shutdown := None, relay_channel := None,
          relay_sub_id := None\<rparr>) \<and>
   (inspection_enabled s \<and>
    \<not> inspection_enabled (snd (snd (on_websocket_message loaded u fr w s))) \<longrightarrow>
      (\<exists>message. loaded = Inr message \<and>
         subscript message ''method'' = Inr (JStr ''disable_inspection'')))"
proof -
  have close: "Inspecting s \<Longrightarrow>
      snd (snd (on_websocket_close w s)) =
        s\<lparr>relay_thread := None, relay_shutdown := None, relay_channel := None,
          relay_sub_id := None\<rparr>"
    using shutdown_relay_inspecting [of s "logger (Info_text ''app ws closed'') w"]
    by (auto simp add: on_websocket_close_def)
  show ?thesis
    using shutdown_relay_flag [of w s] shutdown_relay_trace [of w s]
      shutdown_relay_flag [of "logger (Info_text ''app ws closed'') w" s]
      flag_survives_other_messages [of s loaded u fr w] close
    by (simp add: on_websocket_close_def)
qed

text \<open>
  The Inspecting session left by a first \<^verbatim>\<open>enable_inspection\<close>: closing it keeps the
  flag set, \<^verbatim>\<open>disable_inspection\<close> clears it.
\<close>

theorem shutdown_relay_keeps_flag_witness:
  "Inspecting inspecting_session \<and>
   inspection_enabled inspecting_session \<and>
   snd (snd (on_websocket_close inspecting_world inspecting_session)) =
     \<lparr>inspection_enabled = True, relay_thread = None, relay_shutdown = None,
      relay_channel = None, relay_sub_id = None\<rparr> \<and>
   \<not> inspection_enabled (snd (snd (on_websocket_message
        (Inr (control_message ''disable_inspection'')) uuid_b
        (control_frame ''disable_inspection'') inspecting_world inspecting_session))) \<and>
   subscript (control_message ''disable_inspection'') ''method'' =
     Inr (JStr ''disable_inspection'')"
proof -
  have d: "data (control_frame ''disable_inspection'') = Some (control_text ''disable_inspection'')"
    "control_text ''disable_inspection'' \<noteq> []"
    by (simp_all add: samples)
  have m: "subscript (control_message ''disable_inspection'') ''method'' =
     Inr (JStr ''disable_inspection'')"
    by (simp add: subscript_def samples)
  have off: "\<not> inspection_enabled (snd (snd (on_websocket_message
        (Inr (control_message ''disable_inspection'')) uuid_b
        (control_frame ''disable_inspection'') inspecting_world inspecting_session)))"
    using shutdown_relay_inspecting [OF inspecting_sample, of inspecting_world]
    by (auto simp add: message_disable [OF d refl m] split: sum.splits)
  show ?thesis
    using shutdown_relay_keeps_flag [of inspecting_world inspecting_session
        "Inr (control_message ''disable_inspection'')" uuid_b
        "control_frame ''disable_inspection''"]
      inspecting_sample off m
    by (simp add: inspecting_session_def)
qed

text \<open>
  C1. The claim is that \<^verbatim>\<open>inspection_enabled\<close> holds iff subscription id, channel and
  worker handle are all present, after every transition. The code breaks it on
  connection close: from the session that \<^verbatim>\<open>{"id": 1, "method": "enable_inspection"}\<close>
  leaves (where the property holds), \<^verbatim>\<open>on_websocket_close\<close> returns with the flag
  still set and every handle \<^verbatim>\<open>None\<close>. A second \<^verbatim>\<open>shutdown_relay\<close> on that state
  fails the method's own \<^verbatim>\<open>assert self.relay_shutdown\<close>. (The messages keep the
  property, lemma \<open>message_keeps_all_or_nothing\<close>.)
\<close>

theorem close_breaks_all_or_nothing:
  "on_websocket_message (Inr (control_message ''enable_inspection'')) uuid_a
     (control_frame ''enable_inspection'') (opened True) init =
     (Returns, inspecting_world, inspecting_session) \<and>
   all_or_nothing inspecting_session \<and>
   fst (on_websocket_close inspecting_world inspecting_session) = Returns \<and>
   snd (snd (on_websocket_close inspecting_world inspecting_session)) =
     \<lparr>inspection_enabled = True, relay_thread = None, relay_shutdown = None,
      relay_channel = None, relay_sub_id = None\<rparr> \<and>
   \<not> all_or_nothing (snd (snd (on_websocket_close inspecting_world inspecting_session))) \<and>
   fst (on_websocket_close
         (fst (snd (on_websocket_close inspecting_world inspecting_session)))
         (snd (snd (on_websocket_close inspecting_world inspecting_session)))) =
     Raises AssertionError"
proof -
  have c: "on_websocket_close inspecting_world inspecting_session =
    (Returns,
     inspecting_world\<lparr>subscribers := [], events_set := [0], alive := [],
       logged := [Info_text ''app ws opened'', Info_text ''app ws closed''],
       trace := trace inspecting_world @
         [Unsubscribe uuid_a, Event_set 0, Thread_join worker_a, Assign Relay_thread,
          Assign Relay_shutdown, Assign Relay_channel, Assign Relay_sub_id]\<rparr>,
     \<lparr>inspection_enabled = True, relay_thread = None, relay_shutdown = None,
      relay_channel = None, relay_sub_id = None\<rparr>)"
    by (simp add: on_websocket_close_def shutdown_relay_def effects samples Let_def)
  have again: "fst (on_websocket_close w
      \<lparr>inspection_enabled = True, relay_thread = None, relay_shutdown = None,
       relay_channel = None, relay_sub_id = None\<rparr>) = Raises AssertionError" for w
    by (simp add: on_websocket_close_def shutdown_relay_def)
  have before_close: "all_or_nothing inspecting_session"
    by (simp add: all_or_nothing_def inspecting_session_def)
  show ?thesis
    by (simp add: enabled_sample c again before_close) (simp add: all_or_nothing_def)
qed

text \<open>
  C4. An \<^verbatim>\<open>enable_inspection\<close> control message handled while \<^verbatim>\<open>enable_events\<close> is
  false is answered with \<^verbatim>\<open>{id, response: "not enabled"}\<close> and nothing else happens:
  the handler returns, the session is the one it was (an Idle session stays Idle),
  the only effect is the reply queued on the client (no worker started, no bus
  subscription, no object created).
\<close>

theorem enable_without_capability:
  assumes "data fr = Some d" "d \<noteq> []"
    and "loaded = Inr message"
    and "subscript message ''method'' = Inr (JStr ''enable_inspection'')"
    and "subscript message ''id'' = Inr i"
    and "\<not> flags_enable_events w"
  shows "on_websocket_message loaded u fr w s =
    (Returns,
     w\<lparr>client := client w @
          [WebsocketFrame_text (JObj [(''id'', i), (''response'', JStr ''not enabled'')])],
       trace := trace w @
          [Client_queue
             (WebsocketFrame_text (JObj [(''id'', i), (''response'', JStr ''not enabled'')]))]\<rparr>,
     s)"
  using assms by (simp add: message_enable_denied effects)

text \<open>The first message of a session without the capability.\<close>

theorem enable_without_capability_witness:
  "data (control_frame ''enable_inspection'') = Some (control_text ''enable_inspection'') \<and>
   control_text ''enable_inspection'' \<noteq> [] \<and>
   subscript (control_message ''enable_inspection'') ''method'' = Inr (JStr ''enable_inspection'') \<and>
   subscript (control_message ''enable_inspection'') ''id'' = Inr (JNum 1) \<and>
   \<not> flags_enable_events (opened False) \<and>
   on_websocket_message (Inr (control_message ''enable_inspection'')) uuid_a
     (control_frame ''enable_inspection'') (opened False) init =
    (Returns,
     \<lparr>flags_enable_events = False,
      client = [WebsocketFrame_text (JObj [(''id'', JNum 1), (''response'', JStr ''not enabled'')])],
      subscribers = [], events_set = [], alive = [], next_obj = 0,
      logged = [Info_text ''app ws opened''],
      trace = [Client_queue
        (WebsocketFrame_text (JObj [(''id'', JNum 1), (''response'', JStr ''not enabled'')]))]\<rparr>,
     init)"
proof -
  have h: "data (control_frame ''enable_inspection'') = Some (control_text ''enable_inspection'')"
    "control_text ''enable_inspection'' \<noteq> []"
    "subscript (control_message ''enable_inspection'') ''method'' = Inr (JStr ''enable_inspection'')"
    "subscript (control_message ''enable_inspection'') ''id'' = Inr (JNum 1)"
    "\<not> flags_enable_events (opened False)"
    by (simp_all add: samples subscript_def)
  show ?thesis
    using h enable_without_capability [OF h(1) h(2) refl h(3) h(4) h(5), of uuid_a init]
    by (simp add: opened_def)
qed

text \<open>
  C6. A \<^verbatim>\<open>disable_inspection\<close> control message, handled in either protocol state,
  returns, leaves the session Idle and queues \<^verbatim>\<open>{id, response: "inspection_disabled"}\<close>
  on the client. On a session that is already Idle the teardown does nothing: the
  session is unchanged, nothing is unsubscribed, set or joined, and the reply is the
  only effect besides the write of \<^verbatim>\<open>False\<close> to the flag that already held it.
\<close>

theorem disable_inspection_either_state:
  assumes "data fr = Some d" "d \<noteq> []"
    and "loaded = Inr message"
    and "subscript message ''method'' = Inr (JStr ''disable_inspection'')"
    and "subscript message ''id'' = Inr i"
    and "Idle s \<or> Inspecting s"
  shows "fst (on_websocket_message loaded u fr w s) = Returns \<and>
    Idle (snd (snd (on_websocket_message loaded u fr w s))) \<and>
    client (fst (snd (on_websocket_message loaded u fr w s))) =
      client w @
      [WebsocketFrame_text (JObj [(''id'', i), (''response'', JStr ''inspection_disabled'')])] \<and>
    (Idle s \<longrightarrow>
       on_websocket_message loaded u fr w s =
         (Returns,
          w\<lparr>client := client w @
               [WebsocketFrame_text
                  (JObj [(''id'', i), (''response'', JStr ''inspection_disabled'')])],
            trace := trace w @
               [Assign Inspection_enabled,
                Client_queue
                  (WebsocketFrame_text
                     (JObj [(''id'', i), (''response'', JStr ''inspection_disabled'')]))]\<rparr>,
          s))"
proof (cases "Idle s")
  case True
  then have "\<not> inspection_enabled s" by (simp add: Idle_def)
  from shutdown_relay_idle [OF this] True assms show ?thesis
    by (simp add: message_disable effects Idle_def)
next
  case False
  with assms have "Inspecting s" by simp
  from shutdown_relay_inspecting [OF this, of w] False assms show ?thesis
    by (auto simp add: message_disable effects Idle_def)
qed

text \<open>The message on a fresh session, and on the Inspecting sample session.\<close>

theorem disable_inspection_either_state_witness:
  "data (control_frame ''disable_inspection'') = Some (control_text ''disable_inspection'') \<and>
   control_text ''disable_inspection'' \<noteq> [] \<and>
   subscript (control_message ''disable_inspection'') ''method'' =
     Inr (JStr ''disable_inspection'') \<and>
   subscript (control_message ''disable_inspection'') ''id'' = Inr (JNum 1) \<and>
   Idle init \<and>
   on_websocket_message (Inr (control_message ''disable_inspection'')) uuid_a
     (control_frame ''disable_inspection'') (opened True) init =
    (Returns,
     \<lparr>flags_enable_events = True,
      client =
        [WebsocketFrame_text (JObj [(''id'', JNum 1), (''response'', JStr ''inspection_disabled'')])],
      subscribers = [], events_set = [], alive = [], next_obj = 0,
      logged = [Info_text ''app ws opened''],
      trace =
        [Assign Inspection_enabled,
         Client_queue
           (WebsocketFrame_text
              (JObj [(''id'', JNum 1), (''response'', JStr ''inspection_disabled'')]))]\<rparr>,
     init) \<and>
   Inspecting inspecting_session \<and>
   fst (on_websocket_message (Inr (control_message ''disable_inspection'')) uuid_a
     (control_frame ''disable_inspection'') inspecting_world inspecting_session) = Returns \<and>
   Idle (snd (snd (on_websocket_message (Inr (control_message ''disable_inspection'')) uuid_a
     (control_frame ''disable_inspection'') inspecting_world inspecting_session)))"
proof -
  have h: "data (control_frame ''disable_inspection'') = Some (control_text ''disable_inspection'')"
    "control_text ''disable_inspection'' \<noteq> []"
    "subscript (control_message ''disable_inspection'') ''method'' =
       Inr (JStr ''disable_inspection'')"
    "subscript (control_message ''disable_inspection'') ''id'' = Inr (JNum 1)"
    by (simp_all add: samples subscript_def)
  have idle: "Idle init" by (simp add: Idle_def init_def)
  show ?thesis
    using h idle inspecting_sample
      disable_inspection_either_state [OF h(1) h(2) refl h(3) h(4) disjI1 [OF idle],
        of uuid_a "opened True"]
      disable_inspection_either_state [OF h(1) h(2) refl h(3) h(4) disjI2 [OF inspecting_sample],
        of uuid_a inspecting_world]
    by (simp add: opened_def)
qed

text \<open>
  C3, as stated, has teardown clear four fields among which the enabled flag, on
  the disable and on the connection-close path. On the Inspecting sample session
  \<^verbatim>\<open>shutdown_relay\<close> returns with the flag still set, and so does
  \<^verbatim>\<open>on_websocket_close\<close>.
\<close>

theorem teardown_leaves_flag_set:
  "Inspecting inspecting_session \<and>
   fst (shutdown_relay inspecting_world inspecting_session) = Returns \<and>
   inspection_enabled (snd (snd (shutdown_relay inspecting_world inspecting_session))) \<and>
   fst (on_websocket_close inspecting_world inspecting_session) = Returns \<and>
   inspection_enabled (snd (snd (on_websocket_close inspecting_world inspecting_session)))"
  using shutdown_relay_inspecting [OF inspecting_sample, of inspecting_world]
    shutdown_relay_inspecting [OF inspecting_sample,
      of "logger (Info_text ''app ws closed'') inspecting_world"]
    inspecting_sample
  by (auto simp add: on_websocket_close_def) (simp_all add: inspecting_session_def)

text \<open>
  C3, amended. \<^verbatim>\<open>shutdown_relay\<close> returns at once, changing nothing, when the flag
  is off. On an Inspecting session it performs, in this order: unsubscribe of the
  subscription id, set of the stop signal, join of the worker, then the writes of
  \<^verbatim>\<open>None\<close> to \<^verbatim>\<open>relay_thread\<close>, \<^verbatim>\<open>relay_shutdown\<close>, \<^verbatim>\<open>relay_channel\<close> and
  \<^verbatim>\<open>relay_sub_id\<close>; afterwards the id is off the bus, the signal is set and the
  worker is no longer running. It does not write the flag.
  \<^verbatim>\<open>on_websocket_close\<close> does the same after its log line. The
  \<^verbatim>\<open>disable_inspection\<close> branch does the same, then writes \<^verbatim>\<open>False\<close> to the
  flag and replies, which leaves the session as \<^verbatim>\<open>__init__\<close> made it.
\<close>

theorem shutdown_relay_teardown:
  "(\<not> inspection_enabled s \<longrightarrow> shutdown_relay w s = (Returns, w, s)) \<and>
   (Inspecting s \<and> relay_thread s = Some t \<and> relay_sub_id s = Some sub_id \<longrightarrow>
      shutdown_relay w s =
        (Returns,
         w\<lparr>subscribers := AList.delete sub_id (subscribers w),
           events_set := events_set w @ [target_shutdown t],
           alive := removeAll (ident t) (alive w),
           trace := trace w @
             [Unsubscribe sub_id, Event_set (target_shutdown t), Thread_join t,
              Assign Relay_thread, Assign Relay_shutdown, Assign Relay_channel,
              Assign Relay_sub_id]\<rparr>,
         s\<lparr>relay_thread := None, relay_shutdown := None, relay_channel := None,
           relay_sub_id := None\<rparr>) \<and>
      on_websocket_close w s =
        (Returns,
         w\<lparr>subscribers := AList.delete sub_id (subscribers w),
           events_set := events_set w @ [target_shutdown t],
           alive := removeAll (ident t) (alive w),
           logged := logged w @ [Info_text ''app ws closed''],
           trace := trace w @
             [Unsubscribe sub_id, Event_set (target_shutdown t), Thread_join t,
              Assign Relay_thread, Assign Relay_shutdown, Assign Relay_channel,
              Assign Relay_sub_id]\<rparr>,
         s\<lparr>relay_thread := None, relay_shutdown := None, relay_channel := None,
           relay_sub_id := None\<rparr>) \<and>
      (data fr = Some d \<and> d \<noteq> [] \<and> loaded = Inr message \<and>
       subscript message ''method'' = Inr (JStr ''disable_inspection'') \<and>
       subscript message ''id'' = Inr i \<longrightarrow>
         on_websocket_message loaded u fr w s =
           (Returns,
            w\<lparr>client := client w @
                 [WebsocketFrame_text
                    (JObj [(''id'', i), (''response'', JStr ''inspection_disabled'')])],
              subscribers := AList.delete sub_id (subscribers w),
              events_set := events_set w @ [target_shutdown t],
              alive := removeAll (ident t) (alive w),
              trace := trace w @
                [Unsubscribe sub_id, Event_set (target_shutdown t), Thread_join t,
                 Assign Relay_thread, Assign Relay_shutdown, Assign Relay_channel,
                 Assign Relay_sub_id, Assign Inspection_enabled,
                 Client_queue
                   (WebsocketFrame_text
                      (JObj [(''id'', i), (''response'', JStr ''inspection_disabled'')]))]\<rparr>,
            init)))"
proof (intro conjI impI)
  assume "\<not> inspection_enabled s"
  then show "shutdown_relay w s = (Returns, w, s)" by (rule shutdown_relay_idle)
next
  assume a: "Inspecting s \<and> relay_thread s = Some t \<and> relay_sub_id s = Some sub_id"
  with shutdown_relay_inspecting [of s w]
  show "shutdown_relay w s =
        (Returns,
         w\<lparr>subscribers := AList.delete sub_id (subscribers w),
           events_set := events_set w @ [target_shutdown t],
           alive := removeAll (ident t) (alive w),
           trace := trace w @
             [Unsubscribe sub_id, Event_set (target_shutdown t), Thread_join t,
              Assign Relay_thread, Assign Relay_shutdown, Assign Relay_channel,
              Assign Relay_sub_id]\<rparr>,
         s\<lparr>relay_thread := None, relay_shutdown := None, relay_channel := None,
           relay_sub_id := None\<rparr>)"
    by auto
next
  assume a: "Inspecting s \<and> relay_thread s = Some t \<and> relay_sub_id s = Some sub_id"
  with shutdown_relay_inspecting [of s "logger (Info_text ''app ws closed'') w"]
  show "on_websocket_close w s =
        (Returns,
         w\<lparr>subscribers := AList.delete sub_id (subscribers w),
           events_set := events_set w @ [target_shutdown t],
           alive := removeAll (ident t) (alive w),
           logged := logged w @ [Info_text ''app ws closed''],
           trace := trace w @
             [Unsubscribe sub_id, Event_set (target_shutdown t), Thread_join t,
              Assign Relay_thread, Assign Relay_shutdown, Assign Relay_channel,
              Assign Relay_sub_id]\<rparr>,
         s\<lparr>relay_thread := None, relay_shutdown := None, relay_channel := None,
           relay_sub_id := None\<rparr>)"
    by (auto simp add: on_websocket_close_def logger_def)
next
  assume a: "Inspecting s \<and> relay_thread s = Some t \<and> relay_sub_id s = Some sub_id"
    and m: "data fr = Some d \<and> d \<noteq> [] \<and> loaded = Inr message \<and>
       subscript message ''method'' = Inr (JStr ''disable_inspection'') \<and>
       subscript message ''id'' = Inr i"
  from m have l: "loaded = Inr message" by simp
  from m have eq: "on_websocket_message (Inr message) u fr w s =
    (case shutdown_relay w s of
       (Returns, w', s') \<Rightarrow>
         (case subscript message ''id'' of
            Inl x \<Rightarrow> (Raises x, traced (Assign Inspection_enabled) w', s'\<lparr>inspection_enabled := False\<rparr>)
          | Inr i \<Rightarrow>
              (Returns,
               reply (JObj [(''id'', i), (''response'', JStr ''inspection_disabled'')])
                 (traced (Assign Inspection_enabled) w'),
               s'\<lparr>inspection_enabled := False\<rparr>))
     | (Raises x, w', s') \<Rightarrow> (Raises x, w', s')
     | (Blocks, w', s') \<Rightarrow> (Blocks, w', s'))"
    by (intro message_disable) auto
  from a m shutdown_relay_inspecting [of s w]
  show "on_websocket_message loaded u fr w s =
           (Returns,
            w\<lparr>client := client w @
                 [WebsocketFrame_text
                    (JObj [(''id'', i), (''response'', JStr ''inspection_disabled'')])],
              subscribers := AList.delete sub_id (subscribers w),
              events_set := events_set w @ [target_shutdown t],
              alive := removeAll (ident t) (alive w),
              trace := trace w @
                [Unsubscribe sub_id, Event_set (target_shutdown t), Thread_join t,
                 Assign Relay_thread, Assign Relay_shutdown, Assign Relay_channel,
                 Assign Relay_sub_id, Assign Inspection_enabled,
                 Client_queue
                   (WebsocketFrame_text
                      (JObj [(''id'', i), (''response'', JStr ''inspection_disabled'')]))]\<rparr>,
            init)"
    unfolding l by (auto simp add: eq effects init_def)
qed

text \<open>A fresh session, and the Inspecting sample session.\<close>

theorem shutdown_relay_teardown_witness:
  "\<not> inspection_enabled init \<and>
   shutdown_relay (opened True) init = (Returns, opened True, init) \<and>
   Inspecting inspecting_session \<and>
   relay_thread inspecting_session = Some worker_a \<and>
   relay_sub_id inspecting_session = Some uuid_a \<and>
   shutdown_relay inspecting_world inspecting_session =
     (Returns,
      inspecting_world\<lparr>subscribers := [], events_set := [0], alive := [],
        trace := trace inspecting_world @
          [Unsubscribe uuid_a, Event_set 0, Thread_join worker_a,
           Assign Relay_thread, Assign Relay_shutdown, Assign Relay_channel,
           Assign Relay_sub_id]\<rparr>,
      \<lparr>inspection_enabled = True, relay_thread = None, relay_shutdown = None,
       relay_channel = None, relay_sub_id = None\<rparr>) \<and>
   data (control_frame ''disable_inspection'') = Some (control_text ''disable_inspection'') \<and>
   control_text ''disable_inspection'' \<noteq> [] \<and>
   subscript (control_message ''disable_inspection'') ''method'' =
     Inr (JStr ''disable_inspection'') \<and>
   subscript (control_message ''disable_inspection'') ''id'' = Inr (JNum 1) \<and>
   snd (snd (on_websocket_message (Inr (control_message ''disable_inspection'')) uuid_b
     (control_frame ''disable_inspection'') inspecting_world inspecting_session)) = init"
proof -
  have h: "data (control_frame ''disable_inspection'') = Some (control_text ''disable_inspection'')"
    "control_text ''disable_inspection'' \<noteq> []"
    "subscript (control_message ''disable_inspection'') ''method'' =
       Inr (JStr ''disable_inspection'')"
    "subscript (control_message ''disable_inspection'') ''id'' = Inr (JNum 1)"
    by (simp_all add: samples subscript_def)
  have i: "\<not> inspection_enabled init" by (simp add: init_def)
  have s: "relay_thread inspecting_session = Some worker_a"
    "relay_sub_id inspecting_session = Some uuid_a"
    by (simp_all add: inspecting_session_def)
  have v: "AList.delete uuid_a (subscribers inspecting_world) = []"
    "removeAll (ident worker_a) (alive inspecting_world) = []"
    "events_set inspecting_world = []" "target_shutdown worker_a = 0"
    by (simp_all add: inspecting_world_def worker_a_def)
  show ?thesis
    using h i s inspecting_sample
      shutdown_relay_teardown [where s = init and w = "opened True"]
      shutdown_relay_teardown [where s = inspecting_session and t = worker_a
        and sub_id = uuid_a and w = inspecting_world
        and fr = "control_frame ''disable_inspection''"
        and d = "control_text ''disable_inspection''"
        and loaded = "Inr (control_message ''disable_inspection'')"
        and message = "control_message ''disable_inspection''"
        and i = "JNum 1" and u = uuid_b]
    by (simp add: v) (simp add: inspecting_session_def)
qed

text \<open>
  C7, as stated, has the (identifier, channel) pair registered with the bus before
  the worker is started, and the transition to Inspecting after both. On the first
  \<^verbatim>\<open>enable_inspection\<close> of a session with the capability the trace is the other
  way round: the flag is written first, the worker is started next, and the
  subscription comes after it.
\<close>

theorem worker_started_before_subscription:
  "trace (fst (snd (on_websocket_message (Inr (control_message ''enable_inspection'')) uuid_a
     (control_frame ''enable_inspection'') (opened True) init))) =
     [Assign Inspection_enabled, Event_new 0, Assign Relay_shutdown, Queue_new 1,
      Assign Relay_channel, Assign Relay_thread, Thread_start worker_a, Uuid4 uuid_a,
      Assign Relay_sub_id, Subscribe uuid_a 1, Client_queue enabled_reply] \<and>
   \<not> before (Subscribe uuid_a 1) (Thread_start worker_a)
     (trace (fst (snd (on_websocket_message (Inr (control_message ''enable_inspection'')) uuid_a
        (control_frame ''enable_inspection'') (opened True) init)))) \<and>
   before (Thread_start worker_a) (Subscribe uuid_a 1)
     (trace (fst (snd (on_websocket_message (Inr (control_message ''enable_inspection'')) uuid_a
        (control_frame ''enable_inspection'') (opened True) init)))) \<and>
   \<not> before (Thread_start worker_a) (Assign Inspection_enabled)
     (trace (fst (snd (on_websocket_message (Inr (control_message ''enable_inspection'')) uuid_a
        (control_frame ''enable_inspection'') (opened True) init))))"
  by (simp add: enabled_sample) (simp add: inspecting_world_def before_def worker_a_def uuid_a_def)

text \<open>
  C7, amended. An \<^verbatim>\<open>enable_inspection\<close> control message handled while
  \<^verbatim>\<open>enable_events\<close> is true performs these steps in this order: it sets
  \<^verbatim>\<open>inspection_enabled\<close>; creates a new stop signal and a new channel; creates and
  starts the worker bound to that stop signal and channel; takes a subscription
  identifier from \<^verbatim>\<open>uuid4\<close> and registers the (identifier, channel) pair with the
  bus; and finally replies \<^verbatim>\<open>{id, response: "inspection_enabled"}\<close>. The session is
  Inspecting afterwards, the identifier is registered for the new channel and the
  new worker is running.
\<close>

theorem enable_inspection_order:
  assumes "data fr = Some d" "d \<noteq> []"
    and "loaded = Inr message"
    and "subscript message ''method'' = Inr (JStr ''enable_inspection'')"
    and "subscript message ''id'' = Inr i"
    and "flags_enable_events w"
    and "u \<noteq> []"
  shows "on_websocket_message loaded u fr w s =
    (Returns,
     w\<lparr>client := client w @
          [WebsocketFrame_text (JObj [(''id'', i), (''response'', JStr ''inspection_enabled'')])],
       subscribers := AList.update u (Suc (next_obj w)) (subscribers w),
       alive := alive w @ [Suc (Suc (next_obj w))],
       next_obj := Suc (Suc (Suc (next_obj w))),
       trace := trace w @
         [Assign Inspection_enabled,
          Event_new (next_obj w), Assign Relay_shutdown,
          Queue_new (Suc (next_obj w)), Assign Relay_channel,
          Assign Relay_thread,
          Thread_start \<lparr>ident = Suc (Suc (next_obj w)), target_shutdown = next_obj w,
                        target_channel = Suc (next_obj w)\<rparr>,
          Uuid4 u, Assign Relay_sub_id,
          Subscribe u (Suc (next_obj w)),
          Client_queue
            (WebsocketFrame_text (JObj [(''id'', i), (''response'', JStr ''inspection_enabled'')]))]\<rparr>,
     \<lparr>inspection_enabled = True,
      relay_thread = Some \<lparr>ident = Suc (Suc (next_obj w)), target_shutdown = next_obj w,
                            target_channel = Suc (next_obj w)\<rparr>,
      relay_shutdown = Some (next_obj w),
      relay_channel = Some (Suc (next_obj w)),
      relay_sub_id = Some u\<rparr>) \<and>
    Inspecting (snd (snd (on_websocket_message loaded u fr w s))) \<and>
    map_of (subscribers (fst (snd (on_websocket_message loaded u fr w s)))) u =
      Some (Suc (next_obj w)) \<and>
    Suc (Suc (next_obj w)) \<in> set (alive (fst (snd (on_websocket_message loaded u fr w s))))"
  using assms(7)
  by (simp add: enable_capable [OF assms(1-6)] Inspecting_def update_conv')

text \<open>The first message of a session with the capability.\<close>

theorem enable_inspection_order_witness:
  "data (control_frame ''enable_inspection'') = Some (control_text ''enable_inspection'') \<and>
   control_text ''enable_inspection'' \<noteq> [] \<and>
   subscript (control_message ''enable_inspection'') ''method'' = Inr (JStr ''enable_inspection'') \<and>
   subscript (control_message ''enable_inspection'') ''id'' = Inr (JNum 1) \<and>
   flags_enable_events (opened True) \<and>
   uuid_a \<noteq> [] \<and>
   on_websocket_message (Inr (control_message ''enable_inspection'')) uuid_a
     (control_frame ''enable_inspection'') (opened True) init =
     (Returns, inspecting_world, inspecting_session) \<and>
   Inspecting inspecting_session"
proof -
  have h: "data (control_frame ''enable_inspection'') = Some (control_text ''enable_inspection'')"
    "control_text ''enable_inspection'' \<noteq> []"
    "subscript (control_message ''enable_inspection'') ''method'' = Inr (JStr ''enable_inspection'')"
    "subscript (control_message ''enable_inspection'') ''id'' = Inr (JNum 1)"
    "flags_enable_events (opened True)"
    "uuid_a \<noteq> []"
    by (simp_all add: samples subscript_def)
  show ?thesis
    using h enable_inspection_order [OF h(1) h(2) refl h(3) h(4) h(5) h(6), of init]
    by (simp add: opened_def inspecting_world_def inspecting_session_def worker_a_def
        enabled_reply_def numeral_2_eq_2 numeral_3_eq_3 Inspecting_def)
qed

text \<open>
  C8. On a session that is already Inspecting, an \<^verbatim>\<open>enable_inspection\<close> control
  message with the capability re-enables unconditionally: subscription id, channel,
  stop signal and worker handle are overwritten with new ones, all different from
  the prior ones (the prior objects exist already, and \<^verbatim>\<open>uuid4\<close> yields an
  identifier other than the prior one). Among the effects of the call there is no
  unsubscribe, no set of a stop signal and no join, so the prior subscription stays
  registered, no stop signal changes and every worker that was running still is:
  the prior subscription and worker are leaked.
\<close>

theorem reenable_leaks_prior_relay:
  assumes "data fr = Some d" "d \<noteq> []"
    and "loaded = Inr message"
    and "subscript message ''method'' = Inr (JStr ''enable_inspection'')"
    and "subscript message ''id'' = Inr i"
    and "flags_enable_events w"
    and "Inspecting s"
    and "relay_thread s = Some t0" "relay_sub_id s = Some sub0"
    and "ident t0 < next_obj w" "target_shutdown t0 < next_obj w" "target_channel t0 < next_obj w"
    and "u \<noteq> []" "u \<noteq> sub0"
  shows "fst (on_websocket_message loaded u fr w s) = Returns \<and>
    Inspecting (snd (snd (on_websocket_message loaded u fr w s))) \<and>
    relay_sub_id (snd (snd (on_websocket_message loaded u fr w s))) = Some u \<and>
    relay_sub_id (snd (snd (on_websocket_message loaded u fr w s))) \<noteq> relay_sub_id s \<and>
    relay_channel (snd (snd (on_websocket_message loaded u fr w s))) \<noteq> relay_channel s \<and>
    relay_shutdown (snd (snd (on_websocket_message loaded u fr w s))) \<noteq> relay_shutdown s \<and>
    relay_thread (snd (snd (on_websocket_message loaded u fr w s))) \<noteq> relay_thread s \<and>
    (\<exists>ys. trace (fst (snd (on_websocket_message loaded u fr w s))) = trace w @ ys \<and>
       (\<forall>x. Unsubscribe x \<notin> set ys) \<and> (\<forall>e. Event_set e \<notin> set ys) \<and>
       (\<forall>t. Thread_join t \<notin> set ys)) \<and>
    map_of (subscribers (fst (snd (on_websocket_message loaded u fr w s)))) sub0 =
      map_of (subscribers w) sub0 \<and>
    events_set (fst (snd (on_websocket_message loaded u fr w s))) = events_set w \<and>
    set (alive w) \<subseteq> set (alive (fst (snd (on_websocket_message loaded u fr w s))))"
proof -
  from assms(7-9) have old: "relay_shutdown s = Some (target_shutdown t0)"
    "relay_channel s = Some (target_channel t0)"
    by (simp_all add: Inspecting_def)
  show ?thesis
    using assms(8-14) old
    by (auto simp add: enable_capable [OF assms(1-6)] Inspecting_def update_conv')
qed

text \<open>A second \<^verbatim>\<open>enable_inspection\<close> on the Inspecting sample session.\<close>

theorem reenable_leaks_prior_relay_witness:
  "data (control_frame ''enable_inspection'') = Some (control_text ''enable_inspection'') \<and>
   control_text ''enable_inspection'' \<noteq> [] \<and>
   subscript (control_message ''enable_inspection'') ''method'' = Inr (JStr ''enable_inspection'') \<and>
   subscript (control_message ''enable_inspection'') ''id'' = Inr (JNum 1) \<and>
   flags_enable_events inspecting_world \<and>
   Inspecting inspecting_session \<and>
   relay_thread inspecting_session = Some worker_a \<and>
   relay_sub_id inspecting_session = Some uuid_a \<and>
   ident worker_a < next_obj inspecting_world \<and>
   target_shutdown worker_a < next_obj inspecting_world \<and>
   target_channel worker_a < next_obj inspecting_world \<and>
   uuid_b \<noteq> [] \<and> uuid_b \<noteq> uuid_a \<and>
   fst (on_websocket_message (Inr (control_message ''enable_inspection'')) uuid_b
     (control_frame ''enable_inspection'') inspecting_world inspecting_session) = Returns \<and>
   relay_sub_id (snd (snd (on_websocket_message (Inr (control_message ''enable_inspection''))
     uuid_b (control_frame ''enable_inspection'') inspecting_world inspecting_session))) =
     Some uuid_b \<and>
   map_of (subscribers (fst (snd (on_websocket_message
     (Inr (control_message ''enable_inspection'')) uuid_b
     (control_frame ''enable_inspection'') inspecting_world inspecting_session)))) uuid_a =
     Some 1 \<and>
   events_set (fst (snd (on_websocket_message (Inr (control_message ''enable_inspection''))
     uuid_b (control_frame ''enable_inspection'') inspecting_world inspecting_session))) = []"
proof -
  have h: "data (control_frame ''enable_inspection'') = Some (control_text ''enable_inspection'')"
    "control_text ''enable_inspection'' \<noteq> []"
    "subscript (control_message ''enable_inspection'') ''method'' = Inr (JStr ''enable_inspection'')"
    "subscript (control_message ''enable_inspection'') ''id'' = Inr (JNum 1)"
    "flags_enable_events inspecting_world"
    by (simp_all add: samples subscript_def)
  have k: "relay_thread inspecting_session = Some worker_a"
    "relay_sub_id inspecting_session = Some uuid_a"
    "ident worker_a < next_obj inspecting_world"
    "target_shutdown worker_a < next_obj inspecting_world"
    "target_channel worker_a < next_obj inspecting_world"
    "uuid_b \<noteq> []" "uuid_b \<noteq> uuid_a"
    by (simp_all add: samples)
  have v: "map_of (subscribers inspecting_world) uuid_a = Some 1"
    "events_set inspecting_world = []"
    by (simp_all add: inspecting_world_def)
  show ?thesis
    using h k inspecting_sample v
      reenable_leaks_prior_relay [OF h(1) h(2) refl h(3) h(4) h(5) inspecting_sample k]
    by simp
qed

text \<open>
  C2, as stated, has every malformed frame logged and dropped with no exception
  escaping and no session field changed. On a fresh session: the empty payload
  fails \<^verbatim>\<open>assert frame.data\<close>; the payload \<^verbatim>\<open>{\<close> makes \<^verbatim>\<open>json.loads\<close> raise
  \<^verbatim>\<open>JSONDecodeError\<close>, which is not caught; \<^verbatim>\<open>{}\<close> has no method
  (\<^verbatim>\<open>KeyError\<close>) and \<^verbatim>\<open>[]\<close> is no dict (\<^verbatim>\<open>TypeError\<close>); and
  \<^verbatim>\<open>{"method": "enable_inspection"}\<close>, which lacks the id, raises \<^verbatim>\<open>KeyError\<close> only
  when the reply is built, after the session has become Inspecting.
\<close>

theorem malformed_frames_escape:
  "on_websocket_message (Inl JSONDecodeError) uuid_a \<lparr>data = Some [], opcode = 1\<rparr>
     (opened True) init = (Raises AssertionError, opened True, init) \<and>
   on_websocket_message (Inl JSONDecodeError) uuid_a \<lparr>data = Some ''{'', opcode = 1\<rparr>
     (opened True) init = (Raises JSONDecodeError, opened True, init) \<and>
   on_websocket_message (Inr (JObj [])) uuid_a \<lparr>data = Some ''{}'', opcode = 1\<rparr>
     (opened True) init = (Raises (KeyError ''method''), opened True, init) \<and>
   on_websocket_message (Inr (JArr [])) uuid_a \<lparr>data = Some ''[]'', opcode = 1\<rparr>
     (opened True) init = (Raises TypeError, opened True, init) \<and>
   fst (on_websocket_message (Inr (bare_message ''enable_inspection'')) uuid_a
     (bare_frame ''enable_inspection'') (opened True) init) = Raises (KeyError ''id'') \<and>
   snd (snd (on_websocket_message (Inr (bare_message ''enable_inspection'')) uuid_a
     (bare_frame ''enable_inspection'') (opened True) init)) = inspecting_session \<and>
   inspecting_session \<noteq> init"
proof -
  have 1: "on_websocket_message (Inl JSONDecodeError) uuid_a \<lparr>data = Some [], opcode = 1\<rparr>
     (opened True) init = (Raises AssertionError, opened True, init)"
    by (simp add: message_empty)
  have 2: "on_websocket_message (Inl JSONDecodeError) uuid_a \<lparr>data = Some ''{'', opcode = 1\<rparr>
     (opened True) init = (Raises JSONDecodeError, opened True, init)"
    by (simp add: message_undecoded [where d = "''{''"])
  have 3: "on_websocket_message (Inr (JObj [])) uuid_a \<lparr>data = Some ''{}'', opcode = 1\<rparr>
     (opened True) init = (Raises (KeyError ''method''), opened True, init)"
    by (rule message_no_method [where d = "''{}''" and message = "JObj []"])
      (simp_all add: subscript_def)
  have 4: "on_websocket_message (Inr (JArr [])) uuid_a \<lparr>data = Some ''[]'', opcode = 1\<rparr>
     (opened True) init = (Raises TypeError, opened True, init)"
    by (rule message_no_method [where d = "''[]''" and message = "JArr []"])
      (simp_all add: subscript_def)
  have 5: "on_websocket_message (Inr (bare_message ''enable_inspection'')) uuid_a
     (bare_frame ''enable_inspection'') (opened True) init =
     (Raises (KeyError ''id''),
      inspecting_world\<lparr>client := [],
        trace := [Assign Inspection_enabled, Event_new 0, Assign Relay_shutdown, Queue_new 1,
         Assign Relay_channel, Assign Relay_thread, Thread_start worker_a, Uuid4 uuid_a,
         Assign Relay_sub_id, Subscribe uuid_a 1]\<rparr>,
      inspecting_session)"
    by (simp add: on_websocket_message_def effects samples subscript_def Let_def)
  have 6: "inspecting_session \<noteq> init"
    by (simp add: inspecting_session_def init_def)
  from 1 2 3 4 5 6 show ?thesis by simp
qed

text \<open>
  C2, amended. A frame whose non-empty payload makes \<^verbatim>\<open>json.loads\<close> raise
  \<^verbatim>\<open>UnicodeDecodeError\<close> is logged (payload, then opcode) and dropped: the handler
  returns, no reply is queued and no session field changes. The other malformed
  frames are not caught: an empty payload raises \<^verbatim>\<open>AssertionError\<close>, any other
  exception of \<^verbatim>\<open>json.loads\<close> escapes as it is, and so does the exception of
  \<^verbatim>\<open>message['method']\<close> on a decoded value without that key; in each of these cases
  nothing is logged, no reply is queued and no session field changes.
\<close>

theorem undecodable_frame_dropped:
  "(data fr = None \<or> data fr = Some [] \<longrightarrow>
      on_websocket_message loaded u fr w s = (Raises AssertionError, w, s)) \<and>
   (data fr = Some d \<and> d \<noteq> [] \<and> loaded = Inl UnicodeDecodeError \<longrightarrow>
      on_websocket_message loaded u fr w s =
        (Returns, w\<lparr>logged := logged w @ [Error_data (data fr), Info_opcode (opcode fr)]\<rparr>, s)) \<and>
   (data fr = Some d \<and> d \<noteq> [] \<and> loaded = Inl x \<and> x \<noteq> UnicodeDecodeError \<longrightarrow>
      on_websocket_message loaded u fr w s = (Raises x, w, s)) \<and>
   (data fr = Some d \<and> d \<noteq> [] \<and> loaded = Inr message \<and>
    subscript message ''method'' = Inl x \<longrightarrow>
      on_websocket_message loaded u fr w s = (Raises x, w, s))"
  by (auto simp add: message_empty message_undecoded message_no_method)

text \<open>
  On the Inspecting sample session: the payload \<^verbatim>\<open>0xFF\<close>, which is not UTF-8, the
  empty payload, \<^verbatim>\<open>{\<close> and \<^verbatim>\<open>{}\<close>.
\<close>

theorem undecodable_frame_dropped_witness:
  "on_websocket_message (Inl UnicodeDecodeError) uuid_a \<lparr>data = Some [CHR 0xFF], opcode = 1\<rparr>
     inspecting_world inspecting_session =
     (Returns,
      inspecting_world\<lparr>logged :=
        [Info_text ''app ws opened'', Error_data (Some [CHR 0xFF]), Info_opcode 1]\<rparr>,
      inspecting_session) \<and>
   on_websocket_message (Inl JSONDecodeError) uuid_a \<lparr>data = Some [], opcode = 1\<rparr>
     inspecting_world inspecting_session =
     (Raises AssertionError, inspecting_world, inspecting_session) \<and>
   on_websocket_message (Inl JSONDecodeError) uuid_a \<lparr>data = Some ''{'', opcode = 1\<rparr>
     inspecting_world inspecting_session =
     (Raises JSONDecodeError, inspecting_world, inspecting_session) \<and>
   subscript (JObj []) ''method'' = Inl (KeyError ''method'') \<and>
   on_websocket_message (Inr (JObj [])) uuid_a \<lparr>data = Some ''{}'', opcode = 1\<rparr>
     inspecting_world inspecting_session =
     (Raises (KeyError ''method''), inspecting_world, inspecting_session)"
proof -
  have m: "subscript (JObj []) ''method'' = Inl (KeyError ''method'')"
    by (simp add: subscript_def)
  have l: "logged inspecting_world = [Info_text ''app ws opened'']"
    by (simp add: inspecting_world_def)
  show ?thesis
    using m
      undecodable_frame_dropped [where fr = "\<lparr>data = Some [CHR 0xFF], opcode = 1\<rparr>"
        and d = "[CHR 0xFF]" and loaded = "Inl UnicodeDecodeError" and u = uuid_a
        and w = inspecting_world and s = inspecting_session]
      undecodable_frame_dropped [where fr = "\<lparr>data = Some [], opcode = 1\<rparr>"
        and loaded = "Inl JSONDecodeError" and u = uuid_a
        and w = inspecting_world and s = inspecting_session]
      undecodable_frame_dropped [where fr = "\<lparr>data = Some ''{'', opcode = 1\<rparr>"
        and d = "''{''" and x = JSONDecodeError and loaded = "Inl JSONDecodeError" and u = uuid_a
        and w = inspecting_world and s = inspecting_session]
      undecodable_frame_dropped [where fr = "\<lparr>data = Some ''{}'', opcode = 1\<rparr>"
        and d = "''{}''" and x = "KeyError ''method''" and message = "JObj []"
        and loaded = "Inr (JObj [])" and u = uuid_a
        and w = inspecting_world and s = inspecting_session]
    by (simp add: l)
qed

text \<open>
  C5, as stated, has every key of the original event keep its value in the message
  handed to the client. An event that already has a \<^verbatim>\<open>push\<close> field loses that
  value: the worker that gets \<^verbatim>\<open>{"request_id": "r1", "push": "proxy"}\<close> and then
  finds the stop signal set has queued
  \<^verbatim>\<open>{"request_id": "r1", "push": "inspect_traffic"}\<close>.
\<close>

theorem push_field_overwritten:
  "relay_events (one_event [(''request_id'', JStr ''r1''), (''push'', JStr ''proxy'')]) 0 [] =
     Some [WebsocketFrame_text
             (JObj [(''request_id'', JStr ''r1''), (''push'', JStr ''inspect_traffic'')])] \<and>
   map_of [(''request_id'', JStr ''r1''), (''push'', JStr ''proxy'')] ''push'' =
     Some (JStr ''proxy'') \<and>
   map_of [(''request_id'', JStr ''r1''), (''push'', JStr ''inspect_traffic'')] ''push'' \<noteq>
     map_of [(''request_id'', JStr ''r1''), (''push'', JStr ''proxy'')] ''push''"
  by (simp add: relay_events_one_event push_message_def)

text \<open>
  C5, amended. When a pass of the worker gets an event from its channel, the
  message appended to the client's buffer is the serialization of the event with
  \<^verbatim>\<open>push\<close> set to \<^verbatim>\<open>"inspect_traffic"\<close>: every key other than \<^verbatim>\<open>push\<close> keeps
  its value, the keys are those of the event and \<^verbatim>\<open>push\<close>, and an event without a
  \<^verbatim>\<open>push\<close> field is the original with that field added at the end. The loop then
  goes on with the next pass.
\<close>

theorem relay_tags_event:
  assumes "\<not> is_set (sched n)" and "get (sched n) = Item ev"
  shows "\<exists>out.
    relay_pass (sched n) buf = Continue (buf @ [WebsocketFrame_text (JObj out)]) \<and>
    relay_events sched n buf =
      relay_events sched (Suc n) (buf @ [WebsocketFrame_text (JObj out)]) \<and>
    out = AList.update ''push'' (JStr ''inspect_traffic'') ev \<and>
    map_of out ''push'' = Some (JStr ''inspect_traffic'') \<and>
    (\<forall>k. k \<noteq> ''push'' \<longrightarrow> map_of out k = map_of ev k) \<and>
    fst ` set out = insert ''push'' (fst ` set ev) \<and>
    (''push'' \<notin> fst ` set ev \<longrightarrow> out = ev @ [(''push'', JStr ''inspect_traffic'')])"
proof -
  have p: "relay_pass (sched n) buf = Continue (buf @ [push_message ev])"
    using assms by (simp add: relay_pass_def)
  have e: "relay_events sched n buf = relay_events sched (Suc n) (buf @ [push_message ev])"
    by (subst relay_events.simps) (simp add: p)
  have d: "fst ` set (AList.update ''push'' (JStr ''inspect_traffic'') ev) =
      insert ''push'' (fst ` set ev)"
    by (simp add: dom_update)
  have a: "''push'' \<notin> fst ` set ev \<Longrightarrow>
      AList.update ''push'' (JStr ''inspect_traffic'') ev = ev @ [(''push'', JStr ''inspect_traffic'')]"
    by (induction ev) auto
  show ?thesis
    using p e d a by (simp add: push_message_def update_conv')
qed

text \<open>The worker that gets \<^verbatim>\<open>{"request_id": "r1"}\<close> at its first pass.\<close>

theorem relay_tags_event_witness:
  "\<not> is_set (one_event [(''request_id'', JStr ''r1'')] 0) \<and>
   get (one_event [(''request_id'', JStr ''r1'')] 0) = Item [(''request_id'', JStr ''r1'')] \<and>
   relay_pass (one_event [(''request_id'', JStr ''r1'')] 0) [] =
     Continue [WebsocketFrame_text
                 (JObj [(''request_id'', JStr ''r1''), (''push'', JStr ''inspect_traffic'')])] \<and>
   relay_events (one_event [(''request_id'', JStr ''r1'')]) 0 [] =
     Some [WebsocketFrame_text
             (JObj [(''request_id'', JStr ''r1''), (''push'', JStr ''inspect_traffic'')])]"
proof -
  have h: "\<not> is_set (one_event [(''request_id'', JStr ''r1'')] 0)"
    "get (one_event [(''request_id'', JStr ''r1'')] 0) = Item [(''request_id'', JStr ''r1'')]"
    by (simp_all add: one_event_def)
  show ?thesis
    using h relay_tags_event [where sched = "one_event [(''request_id'', JStr ''r1'')]"
        and n = 0 and ev = "[(''request_id'', JStr ''r1'')]" and buf = "[]"]
    by (simp add: relay_events_one_event push_message_def)
qed

text \<open>
  C9. The worker's loop, pass by pass: it leaves when the stop signal is set at the
  head of a pass; after a wait that yields no event it goes round, so it re-checks
  the signal and leaves if it is set by then; it leaves on \<^verbatim>\<open>EOFError\<close> and on
  \<^verbatim>\<open>KeyboardInterrupt\<close>. These are the only ways out: \<^verbatim>\<open>relay_events\<close> returns
  iff some pass from the current one on finds the signal set or ends in
  \<^verbatim>\<open>EOFError\<close> or \<^verbatim>\<open>KeyboardInterrupt\<close>. In particular, if the signal is eventually
  set or the channel is closed, the loop terminates.
\<close>

theorem relay_events_leaves_exactly:
  "(is_set (sched n) \<longrightarrow> relay_events sched n buf = Some buf) \<and>
   (\<not> is_set (sched n) \<and> get (sched n) = Empty \<longrightarrow>
      relay_events sched n buf = relay_events sched (Suc n) buf) \<and>
   (\<not> is_set (sched n) \<and> get (sched n) = Empty \<and> is_set (sched (Suc n)) \<longrightarrow>
      relay_events sched n buf = Some buf) \<and>
   (\<not> is_set (sched n) \<and> get (sched n) = EOFError \<longrightarrow>
      relay_events sched n buf = Some buf) \<and>
   (\<not> is_set (sched n) \<and> get (sched n) = KeyboardInterrupt \<longrightarrow>
      relay_events sched n buf = Some buf) \<and>
   ((\<exists>out. relay_events sched n buf = Some out) =
      (\<exists>m. n \<le> m \<and>
         (is_set (sched m) \<or> get (sched m) = EOFError \<or> get (sched m) = KeyboardInterrupt))) \<and>
   ((\<exists>m. n \<le> m \<and> (is_set (sched m) \<or> get (sched m) = EOFError)) \<longrightarrow>
      (\<exists>out. relay_events sched n buf = Some out))"
proof -
  have set: "relay_events sched k b = Some b" if "is_set (sched k)" for k b
    using that by (subst relay_events.simps) (simp add: relay_pass_def)
  have empty: "relay_events sched n buf = relay_events sched (Suc n) buf"
    if "\<not> is_set (sched n) \<and> get (sched n) = Empty"
    using that by (subst relay_events.simps) (simp add: relay_pass_def)
  have eof: "relay_events sched n buf = Some buf"
    if "\<not> is_set (sched n) \<and> get (sched n) = EOFError"
    using that by (subst relay_events.simps) (simp add: relay_pass_def)
  have intr: "relay_events sched n buf = Some buf"
    if "\<not> is_set (sched n) \<and> get (sched n) = KeyboardInterrupt"
    using that by (subst relay_events.simps) (simp add: relay_pass_def)
  have returns: "\<exists>out. relay_events sched n buf = Some out"
    if "n \<le> m" "is_set (sched m) \<or> get (sched m) = EOFError \<or> get (sched m) = KeyboardInterrupt"
    for m
  proof -
    from that(1) obtain k where "m = n + k" by (auto simp add: le_iff_add)
    with that(2) show ?thesis using relay_events_returns [of sched n k buf] by simp
  qed
  have iff: "(\<exists>out. relay_events sched n buf = Some out) =
      (\<exists>m. n \<le> m \<and>
         (is_set (sched m) \<or> get (sched m) = EOFError \<or> get (sched m) = KeyboardInterrupt))"
    using relay_events_left [of sched n buf] returns by auto
  have pre: "\<exists>out. relay_events sched n buf = Some out"
    if "\<exists>m. n \<le> m \<and> (is_set (sched m) \<or> get (sched m) = EOFError)"
    using that returns by auto
  show ?thesis
    using set [of n buf] set [of "Suc n" buf] empty eof intr iff pre
    by (intro conjI impI) simp_all
qed

text \<open>
  A worker stopped at its second pass returns; one that never sees the signal, the
  end of the channel or an interrupt never does.
\<close>

theorem relay_events_leaves_exactly_witness:
  "is_set (one_event [] 1) \<and>
   relay_events (one_event []) 1 [] = Some [] \<and>
   (\<exists>m. 0 \<le> m \<and> (is_set (one_event [] m) \<or> get (one_event [] m) = EOFError)) \<and>
   (\<exists>out. relay_events (one_event []) 0 [] = Some out) \<and>
   \<not> is_set (idle_for_ever 0) \<and> get (idle_for_ever 0) = Empty \<and>
   relay_events idle_for_ever 0 [] = relay_events idle_for_ever (Suc 0) [] \<and>
   relay_events idle_for_ever 0 [] = None"
proof -
  have s: "is_set (one_event [] 1)" by (simp add: one_event_def)
  then have e: "\<exists>m. 0 \<le> m \<and> (is_set (one_event [] m) \<or> get (one_event [] m) = EOFError)"
    by blast
  have i: "\<not> is_set (idle_for_ever 0)" "get (idle_for_ever 0) = Empty"
    by (simp_all add: idle_for_ever_def)
  from s relay_events_leaves_exactly [of "one_event []" 1 "[]"]
  have a: "relay_events (one_event []) 1 [] = Some []" by simp
  from e relay_events_leaves_exactly [of "one_event []" 0 "[]"]
  have b: "\<exists>out. relay_events (one_event []) 0 [] = Some out" by auto
  from i relay_events_leaves_exactly [of idle_for_ever 0 "[]"]
  have c: "relay_events idle_for_ever 0 [] = relay_events idle_for_ever (Suc 0) []" by simp
  from s e i a b c relay_events_leaves_exactly [of "one_event []" 1 "[]"] show ?thesis
    by (simp add: relay_events_idle_for_ever del: One_nat_def)
qed

end
